theory Spec2Isabelle
  imports Main
begin

section \<open>The chat hook of \<^verbatim>\<open>packages/core/svelte/use-chat.ts\<close>\<close>

text \<open>
  The hook keeps a list of chat messages, posts it to a completion endpoint, merges the
  streamed reply into the list chunk by chunk, and offers \<^verbatim>\<open>append\<close>,
  \<^verbatim>\<open>reload\<close>, \<^verbatim>\<open>stop\<close> and \<^verbatim>\<open>setMessages\<close>.

  The embedding is a state-passing one. Everything the hook mutates is a field of
  \<open>chat_state\<close>; everything it receives from outside (the outcome of each
  \<^verbatim>\<open>fetch\<close>, the ids drawn from \<^verbatim>\<open>nanoid\<close>, the clock, and the moments at
  which the user interface calls \<^verbatim>\<open>stop()\<close>) is a field of \<open>env\<close>. JavaScript
  is single-threaded, so other code can only run while the hook is suspended in an
  \<^verbatim>\<open>await\<close>: every \<^verbatim>\<open>await\<close> of the source is a call of \<open>await\<close> in the
  model, and that is where a scheduled \<^verbatim>\<open>stop()\<close> takes effect. An exception is a
  value \<open>Inl e\<close> of a sum type.

  Two things are left out. Of the calls the user interface can make during a suspension
  only \<^verbatim>\<open>stop()\<close> is scheduled, not a second \<^verbatim>\<open>append\<close>, \<^verbatim>\<open>reload\<close> or
  \<^verbatim>\<open>setMessages\<close>. And the callbacks of the configuration are functions of their
  arguments that return or throw; they do not call the hook.
\<close>

subsection \<open>JSON values\<close>

text \<open>
  A \<^verbatim>\<open>function_call\<close> is either the raw text streamed so far (a JavaScript string)
  or the value \<^verbatim>\<open>JSON.parse\<close> produced. Both are JavaScript values, modelled by
  \<open>json\<close>; the string is \<open>JString\<close>.
\<close>

datatype json =
    JNull
  | JBool bool
  | JNum int
  | JString string
  | JArray "json list"
  | JObject "(string \<times> json) list"

text \<open>\<^verbatim>\<open>typeof v === 'string'\<close>\<close>

fun is_string :: "json \<Rightarrow> bool" where
  "is_string (JString s) = True"
| "is_string v = False"

subsection \<open>Thrown values\<close>

text \<open>
  A thrown value has a \<^verbatim>\<open>name\<close> and a \<^verbatim>\<open>message\<close>; \<open>instanceof_Error\<close> is
  the outcome of \<^verbatim>\<open>err instanceof Error\<close>.
\<close>

record js_error =
  err_name :: string
  err_message :: string
  instanceof_Error :: bool

text \<open>\<^verbatim>\<open>new Error(msg)\<close>\<close>

definition new_Error :: "string \<Rightarrow> js_error" where
  "new_Error msg = \<lparr>err_name = ''Error'', err_message = msg, instanceof_Error = True\<rparr>"

text \<open>The \<^verbatim>\<open>SyntaxError\<close> of \<^verbatim>\<open>JSON.parse\<close> and the \<^verbatim>\<open>TypeError\<close> of
  reading a property of \<^verbatim>\<open>null\<close>.\<close>

definition SyntaxError :: js_error where
  "SyntaxError = \<lparr>err_name = ''SyntaxError'', err_message = ''Unexpected token in JSON'',
     instanceof_Error = True\<rparr>"

definition TypeError :: js_error where
  "TypeError = \<lparr>err_name = ''TypeError'', err_message = ''Cannot read properties of null'',
     instanceof_Error = True\<rparr>"

subsection \<open>A parser for a fragment of JSON\<close>

text \<open>
  \<^verbatim>\<open>JSON.parse\<close> belongs to the platform, not to the repository. The engine below
  takes the parser as a parameter (\<open>parse\<close> of \<open>config\<close>), so every general theorem
  holds for any parser. \<open>json_parse\<close> is a parser to run the engine on concrete
  streams: it covers objects, arrays, strings with the two-character escapes, integer
  literals, \<^verbatim>\<open>true\<close>, \<^verbatim>\<open>false\<close>, \<^verbatim>\<open>null\<close> and white space. It does not cover
  \<^verbatim>\<open>\u\<close> escapes, fractions and exponents, which it reports as syntax errors.
\<close>

definition is_ws :: "char \<Rightarrow> bool" where
  "is_ws c = (c = CHR '' '' \<or> c = CHR 0x0A \<or> c = CHR 0x0D \<or> c = CHR 0x09)"

fun skip_ws :: "string \<Rightarrow> string" where
  "skip_ws [] = []"
| "skip_ws (c # cs) = (if is_ws c then skip_ws cs else c # cs)"

definition unescape :: "char \<Rightarrow> char option" where
  "unescape e =
     (if e = CHR 0x22 then Some (CHR 0x22)
      else if e = CHR 0x5C then Some (CHR 0x5C)
      else if e = CHR ''/'' then Some (CHR ''/'')
      else if e = CHR ''b'' then Some (CHR 0x08)
      else if e = CHR ''f'' then Some (CHR 0x0C)
      else if e = CHR ''n'' then Some (CHR 0x0A)
      else if e = CHR ''r'' then Some (CHR 0x0D)
      else if e = CHR ''t'' then Some (CHR 0x09)
      else None)"

text \<open>The characters of a string literal, after its opening quote, up to the closing one.\<close>

fun parse_chars :: "string \<Rightarrow> string \<Rightarrow> (string \<times> string) option" where
  "parse_chars acc [] = None"
| "parse_chars acc [c] = (if c = CHR 0x22 then Some (rev acc, []) else None)"
| "parse_chars acc (c # d # cs) =
     (if c = CHR 0x22 then Some (rev acc, d # cs)
      else if c = CHR 0x5C then
        (case unescape d of None \<Rightarrow> None | Some ch \<Rightarrow> parse_chars (ch # acc) cs)
      else if of_char c < (0x20 :: nat) then None
      else parse_chars (c # acc) (d # cs))"

definition is_digit :: "char \<Rightarrow> bool" where
  "is_digit c = ((48 :: nat) \<le> of_char c \<and> of_char c \<le> (57 :: nat))"

definition digit_val :: "char \<Rightarrow> int" where
  "digit_val c = int (of_char c) - 48"

fun parse_digits :: "int \<Rightarrow> string \<Rightarrow> int \<times> string" where
  "parse_digits n [] = (n, [])"
| "parse_digits n (c # cs) =
     (if is_digit c then parse_digits (10 * n + digit_val c) cs else (n, c # cs))"

text \<open>An integer literal without sign: a single \<^verbatim>\<open>0\<close>, or digits not starting with
  \<^verbatim>\<open>0\<close>.\<close>

fun parse_nat_lit :: "string \<Rightarrow> (int \<times> string) option" where
  "parse_nat_lit [] = None"
| "parse_nat_lit (c # cs) =
     (if c = CHR ''0'' then Some (0, cs)
      else if is_digit c then Some (parse_digits (digit_val c) cs)
      else None)"

fun strip_prefix :: "string \<Rightarrow> string \<Rightarrow> string option" where
  "strip_prefix [] s = Some s"
| "strip_prefix (p # ps) [] = None"
| "strip_prefix (p # ps) (c # cs) = (if p = c then strip_prefix ps cs else None)"

text \<open>
  The recursive descent. The first argument bounds the number of nested and of
  consecutive values; \<open>json_parse\<close> starts it at twice the length of the input.
\<close>

fun parse_value :: "nat \<Rightarrow> string \<Rightarrow> (json \<times> string) option"
  and parse_elements :: "nat \<Rightarrow> json list \<Rightarrow> string \<Rightarrow> (json list \<times> string) option"
  and parse_members :: "nat \<Rightarrow> (string \<times> json) list \<Rightarrow> string \<Rightarrow>
        ((string \<times> json) list \<times> string) option"
where
  "parse_value 0 s = None"
| "parse_value (Suc n) [] = None"
| "parse_value (Suc n) (c # cs) =
     (if c = CHR 0x22 then
        (case parse_chars [] cs of None \<Rightarrow> None | Some (str, r) \<Rightarrow> Some (JString str, r))
      else if c = CHR ''{'' then
        (case skip_ws cs of
           [] \<Rightarrow> None
         | d # ds \<Rightarrow> if d = CHR ''}'' then Some (JObject [], ds)
                    else (case parse_members n [] (d # ds) of
                            None \<Rightarrow> None
                          | Some (kvs, r) \<Rightarrow> Some (JObject kvs, r)))
      else if c = CHR ''['' then
        (case skip_ws cs of
           [] \<Rightarrow> None
         | d # ds \<Rightarrow> if d = CHR '']'' then Some (JArray [], ds)
                    else (case parse_elements n [] (d # ds) of
                            None \<Rightarrow> None
                          | Some (vs, r) \<Rightarrow> Some (JArray vs, r)))
      else if c = CHR ''-'' then
        (case parse_nat_lit cs of None \<Rightarrow> None | Some (k, r) \<Rightarrow> Some (JNum (- k), r))
      else if is_digit c then
        (case parse_nat_lit (c # cs) of None \<Rightarrow> None | Some (k, r) \<Rightarrow> Some (JNum k, r))
      else (case strip_prefix ''true'' (c # cs) of
              Some r \<Rightarrow> Some (JBool True, r)
            | None \<Rightarrow>
          (case strip_prefix ''false'' (c # cs) of
              Some r \<Rightarrow> Some (JBool False, r)
            | None \<Rightarrow>
          (case strip_prefix ''null'' (c # cs) of
              Some r \<Rightarrow> Some (JNull, r)
            | None \<Rightarrow> None))))"
| "parse_elements 0 acc s = None"
| "parse_elements (Suc n) acc s =
     (case parse_value n (skip_ws s) of
        None \<Rightarrow> None
      | Some (v, r) \<Rightarrow>
          (case skip_ws r of
             [] \<Rightarrow> None
           | d # ds \<Rightarrow> if d = CHR '']'' then Some (acc @ [v], ds)
                      else if d = CHR '','' then parse_elements n (acc @ [v]) ds
                      else None))"
| "parse_members 0 acc s = None"
| "parse_members (Suc n) acc s =
     (case skip_ws s of
        [] \<Rightarrow> None
      | q # qs \<Rightarrow>
          if q \<noteq> CHR 0x22 then None
          else (case parse_chars [] qs of
                  None \<Rightarrow> None
                | Some (k, r) \<Rightarrow>
                    (case skip_ws r of
                       [] \<Rightarrow> None
                     | e # es \<Rightarrow>
                         if e \<noteq> CHR '':'' then None
                         else (case parse_value n (skip_ws es) of
                                 None \<Rightarrow> None
                               | Some (v, r') \<Rightarrow>
                                   (case skip_ws r' of
                                      [] \<Rightarrow> None
                                    | d # ds \<Rightarrow>
                                        if d = CHR ''}'' then Some (acc @ [(k, v)], ds)
                                        else if d = CHR '','' then
                                          parse_members n (acc @ [(k, v)]) ds
                                        else None)))))"

definition json_parse :: "string \<Rightarrow> js_error + json" where
  "json_parse s =
     (case parse_value (2 * length s + 2) (skip_ws s) of
        None \<Rightarrow> Inl SyntaxError
      | Some (v, r) \<Rightarrow> if skip_ws r = [] then Inr v else Inl SyntaxError)"

text \<open>
  Reading a property of the parsed value, as in \<^verbatim>\<open>JSON.parse(text).function_call\<close>.
  A missing property reads as \<^verbatim>\<open>undefined\<close> (\<open>None\<close>); for a key given twice
  \<^verbatim>\<open>JSON.parse\<close> keeps the last value; reading a property of \<^verbatim>\<open>null\<close> throws.
\<close>

fun get_property :: "json \<Rightarrow> string \<Rightarrow> js_error + json option" where
  "get_property (JObject kvs) k = Inr (map_of (rev kvs) k)"
| "get_property JNull k = Inl TypeError"
| "get_property v k = Inr None"

subsection \<open>Messages and requests\<close>

datatype role = User | Assistant | System | Function

text \<open>
  \<^verbatim>\<open>Message\<close> of \<^verbatim>\<open>shared/types\<close>. The field \<^verbatim>\<open>id\<close> is \<open>msg_id\<close> here. In a
  \<^verbatim>\<open>CreateMessage\<close>, as \<^verbatim>\<open>append\<close> accepts it, the id is optional
  (\<open>create_message\<close>).
\<close>

record message =
  msg_id :: string
  createdAt :: nat
  role :: role
  content :: string
  name :: "string option"
  function_call :: "json option"

record create_message =
  new_id :: "string option"
  new_createdAt :: nat
  new_role :: role
  new_content :: string
  new_name :: "string option"
  new_function_call :: "json option"

record request_options =
  opt_headers :: "(string \<times> string) list"
  opt_body :: "(string \<times> json) list"

text \<open>\<^verbatim>\<open>ChatRequest\<close>; its \<^verbatim>\<open>function_call\<close> policy is \<open>req_function_call\<close>.\<close>

record chat_request =
  messages :: "message list"
  req_options :: "request_options option"
  req_functions :: "json list option"
  req_function_call :: "json option"

text \<open>\<^verbatim>\<open>ChatRequestOptions\<close>, the second argument of \<^verbatim>\<open>append\<close> and the argument of
  \<^verbatim>\<open>reload\<close>.\<close>

record chat_request_options =
  cro_options :: "request_options option"
  cro_functions :: "json list option"
  cro_function_call :: "json option"

subsection \<open>The HTTP exchange\<close>

text \<open>
  A message as it is serialised into the request body: all of it when
  \<^verbatim>\<open>sendExtraMessageFields\<close> is set, else only role, content and, where defined,
  name and function call.
\<close>

record wire_message =
  w_id :: "string option"
  w_createdAt :: "nat option"
  w_role :: role
  w_content :: string
  w_name :: "string option"
  w_function_call :: "json option"

definition wire_full :: "message \<Rightarrow> wire_message" where
  "wire_full m = \<lparr>w_id = Some (msg_id m), w_createdAt = Some (createdAt m), w_role = role m,
     w_content = content m, w_name = name m, w_function_call = function_call m\<rparr>"

definition wire_stripped :: "message \<Rightarrow> wire_message" where
  "wire_stripped m = \<lparr>w_id = None, w_createdAt = None, w_role = role m,
     w_content = content m, w_name = name m, w_function_call = function_call m\<rparr>"

text \<open>
  The arguments of one \<^verbatim>\<open>fetch\<close> call. The spreads of the source are the appends:
  \<open>fr_body\<close> is \<^verbatim>\<open>...body, ...chatRequest.options?.body\<close> and \<open>fr_headers\<close> is
  \<^verbatim>\<open>...headers, ...chatRequest.options?.headers\<close>, a later entry overriding an
  earlier one. In the source the body is spread into the object that holds
  \<^verbatim>\<open>messages\<close>, \<^verbatim>\<open>functions\<close> and \<^verbatim>\<open>function_call\<close>; here the parts are kept
  apart. \<open>fr_signal\<close> is the controller whose signal is passed, if any.
\<close>

record fetch_request =
  fr_url :: string
  fr_messages :: "wire_message list"
  fr_body :: "(string \<times> json) list"
  fr_functions :: "json list option"
  fr_function_call :: "json option"
  fr_headers :: "(string \<times> string) list"
  fr_signal :: "nat option"

text \<open>
  One \<^verbatim>\<open>await reader.read()\<close>: a chunk, given by the text the chunk decoder
  (\<^verbatim>\<open>createChunkDecoder\<close> of \<^verbatim>\<open>shared/utils\<close>) returns for it, or a rejection.
  The end of the list is \<^verbatim>\<open>done\<close>.
\<close>

datatype read_result = Chunk string | ReadFails js_error

text \<open>
  A \<^verbatim>\<open>Response\<close>: \<open>res_ok\<close> is \<^verbatim>\<open>res.ok\<close>, \<open>res_text\<close> the outcome of
  \<^verbatim>\<open>await res.text()\<close>, \<open>res_body\<close> the reads of \<^verbatim>\<open>res.body\<close> (\<open>None\<close>
  when \<^verbatim>\<open>res.body\<close> is null).
\<close>

record response =
  res_ok :: bool
  res_text :: "js_error + string"
  res_body :: "read_result list option"

subsection \<open>Configuration, environment and state\<close>

text \<open>
  The options of \<^verbatim>\<open>useChat\<close>. A callback is a function of its arguments; \<open>Some e\<close>
  (or \<open>Inl e\<close>) is the callback throwing \<open>e\<close>. \<open>onFunctionCall\<close> returns
  \<open>Inr None\<close> for \<^verbatim>\<open>undefined\<close>. \<open>chatId\<close> is the id after the default
  \<^verbatim>\<open>chat-N\<close> has been filled in. \<open>parse\<close> is \<^verbatim>\<open>JSON.parse\<close>.
\<close>

record config =
  api :: string
  chatId :: string
  sendExtraMessageFields :: bool
  onFunctionCall :: "(message list \<Rightarrow> json \<Rightarrow> js_error + chat_request option) option"
  onResponse :: "(response \<Rightarrow> js_error option) option"
  onFinish :: "(message \<Rightarrow> js_error option) option"
  onError :: "(js_error \<Rightarrow> js_error option) option"
  headers :: "(string \<times> string) list"
  body_extra :: "(string \<times> json) list"
  parse :: "string \<Rightarrow> js_error + json"

text \<open>\<^verbatim>\<open>const key = `${api}|${chatId}`\<close>\<close>

definition key :: "config \<Rightarrow> string" where
  "key cfg = api cfg @ ''|'' @ chatId cfg"

text \<open>
  What the hook receives from outside: the outcome of the n-th \<^verbatim>\<open>fetch\<close>, the n-th
  value of \<^verbatim>\<open>nanoid()\<close>, the value of \<^verbatim>\<open>new Date()\<close> after n suspensions, and
  whether the user interface calls \<^verbatim>\<open>stop()\<close> during the n-th suspension.
\<close>

record env =
  fetch_at :: "nat \<Rightarrow> js_error + response"
  nanoid_at :: "nat \<Rightarrow> string"
  now_at :: "nat \<Rightarrow> nat"
  stop_at :: "nat \<Rightarrow> bool"

text \<open>
  The call site of a publication of the message list: the optimistic update (line 69),
  a rollback (lines 104 and 118), the update after a chunk (line 154), the republication
  after the stream (line 170), and \<^verbatim>\<open>setMessages\<close> (line 330).
\<close>

datatype publication = Optimistic | Rollback | PerChunk | PostStream | SetMessages

text \<open>What the hook does to the outside and to its observable cells, in order.\<close>

datatype effect =
    Published publication "message list"
  | Fetched fetch_request
  | ReaderCancelled
  | LoadingSet bool
  | ErrorSet js_error
  | SignalAborted nat

text \<open>
  \<open>store\<close> is the module-level \<^verbatim>\<open>store\<close>; \<open>data\<close> is the observable cell
  \<^verbatim>\<open>messages\<close> (the \<^verbatim>\<open>data\<close> of the reactive cache); \<open>error\<close> and
  \<open>isLoading\<close> are the two other cells; \<open>abortController\<close> is the variable of that
  name, holding the number of the controller it refers to, and \<open>aborted\<close> lists the
  controllers whose \<^verbatim>\<open>abort()\<close> has been called. The counters say how many
  controllers, suspensions, fetches and ids there have been, and \<open>trace\<close> records the
  effects.
\<close>

record chat_state =
  store :: "string \<rightharpoonup> message list"
  data :: "message list"
  error :: "js_error option"
  isLoading :: bool
  abortController :: "nat option"
  aborted :: "nat list"
  controllers :: nat
  awaits :: nat
  fetches :: nat
  ids :: nat
  trace :: "effect list"

definition emit :: "effect \<Rightarrow> chat_state \<Rightarrow> chat_state" where
  "emit e st = st\<lparr>trace := trace st @ [e]\<rparr>"

text \<open>
  \<^verbatim>\<open>const mutate = (data) => { store[key] = data; return originalMutate(data) }\<close>.
  \<^verbatim>\<open>originalMutate\<close> is the reactive cache's, which sets the cell. The first argument
  names the call site, for the trace.
\<close>

definition mutate :: "config \<Rightarrow> publication \<Rightarrow> message list \<Rightarrow> chat_state \<Rightarrow> chat_state" where
  "mutate cfg kind ms st =
     emit (Published kind ms) (st\<lparr>store := (store st)(key cfg \<mapsto> ms), data := ms\<rparr>)"

text \<open>
  \<^verbatim>\<open>stop\<close>: \<^verbatim>\<open>if (abortController) { abortController.abort(); abortController = null }\<close>
\<close>

definition stop :: "chat_state \<Rightarrow> chat_state" where
  "stop st =
     (case abortController st of
        None \<Rightarrow> st
      | Some c \<Rightarrow> emit (SignalAborted c) (st\<lparr>aborted := c # aborted st, abortController := None\<rparr>))"

text \<open>A suspension: \<^verbatim>\<open>stop()\<close> runs if it is scheduled in this one.\<close>

definition await :: "env \<Rightarrow> chat_state \<Rightarrow> chat_state" where
  "await ev st =
     (let st' = (if stop_at ev (awaits st) then stop st else st)
      in st'\<lparr>awaits := Suc (awaits st')\<rparr>)"


subsection \<open>The streaming request engine: \<^verbatim>\<open>getStreamedResponse\<close>\<close>

text \<open>\<^verbatim>\<open>s.startsWith(p)\<close>\<close>

definition startsWith :: "string \<Rightarrow> string \<Rightarrow> bool" where
  "startsWith s p = (take (length p) s = p)"

definition function_call_prefix :: string where
  \<open>function_call_prefix = ''{"function_call":''\<close>

text \<open>
  Where a failure of the engine arises: the \<^verbatim>\<open>fetch\<close> rejecting (lines 102 to 106),
  \<^verbatim>\<open>onResponse\<close> throwing (108 to 114), the status not being successful (116 to
  120), the body missing (122 to 124), a read rejecting (140), the completed
  function-call text not parsing (165 to 166), and \<^verbatim>\<open>onFinish\<close> throwing (173 to 175).
\<close>

datatype failure =
    NetworkFailure
  | ResponseCallbackFailure
  | HTTPStatusFailure
  | EmptyBodyFailure
  | BodyReadFailure
  | MalformedFunctionCallFailure
  | FinishCallbackFailure

definition fetch_args :: "config \<Rightarrow> chat_request \<Rightarrow> nat option \<Rightarrow> fetch_request" where
  "fetch_args cfg chatRequest abortControllerRef =
     \<lparr>fr_url = api cfg,
      fr_messages =
        (if sendExtraMessageFields cfg then map wire_full (messages chatRequest)
         else map wire_stripped (messages chatRequest)),
      fr_body = body_extra cfg @
        (case req_options chatRequest of None \<Rightarrow> [] | Some opts \<Rightarrow> opt_body opts),
      fr_functions = req_functions chatRequest,
      fr_function_call = req_function_call chatRequest,
      fr_headers = headers cfg @
        (case req_options chatRequest of None \<Rightarrow> [] | Some opts \<Rightarrow> opt_headers opts),
      fr_signal = abortControllerRef\<rparr>"

text \<open>
  Lines 145 to 152: a decoded chunk is added to \<^verbatim>\<open>streamedResponse\<close>, and the text
  so far is stored in \<^verbatim>\<open>function_call\<close> if it starts with the prefix, else in
  \<^verbatim>\<open>content\<close>.
\<close>

definition merge_chunk :: "string \<times> message \<Rightarrow> string \<Rightarrow> string \<times> message" where
  "merge_chunk sr decoded =
     (let streamedResponse' = fst sr @ decoded
      in (streamedResponse',
          if startsWith streamedResponse' function_call_prefix
          then (snd sr)\<lparr>function_call := Some (JString streamedResponse')\<rparr>
          else (snd sr)\<lparr>content := streamedResponse'\<rparr>))"

text \<open>
  Lines 139 to 161, the loop over the reads. \<open>abortControllerRef\<close> is the parameter
  of \<^verbatim>\<open>getStreamedResponse\<close>: the value the caller's variable had at the call.
\<close>

fun read_loop :: "config \<Rightarrow> env \<Rightarrow> chat_request \<Rightarrow> nat option \<Rightarrow> read_result list \<Rightarrow>
    string \<times> message \<Rightarrow> chat_state \<Rightarrow> (js_error + string \<times> message) \<times> chat_state" where
  "read_loop cfg ev chatRequest abortControllerRef [] sr st = (Inr sr, await ev st)"
| "read_loop cfg ev chatRequest abortControllerRef (ReadFails err # reads) sr st =
     (Inl err, await ev st)"
| "read_loop cfg ev chatRequest abortControllerRef (Chunk decoded # reads) sr st =
     (let st1 = await ev st;
          sr' = merge_chunk sr decoded;
          st2 = mutate cfg PerChunk (messages chatRequest @ [snd sr']) st1
      in if abortControllerRef = None then (Inr sr', emit ReaderCancelled st2)
         else read_loop cfg ev chatRequest abortControllerRef reads sr' st2)"

text \<open>Lines 173 to 177.\<close>

definition call_onFinish :: "config \<Rightarrow> message \<Rightarrow> chat_state \<Rightarrow>
    (failure \<times> js_error + message) \<times> chat_state" where
  "call_onFinish cfg responseMessage st =
     (case onFinish cfg of
        None \<Rightarrow> (Inr responseMessage, st)
      | Some callback \<Rightarrow>
          (case callback responseMessage of
             Some err \<Rightarrow> (Inl (FinishCallbackFailure, err), st)
           | None \<Rightarrow> (Inr responseMessage, st)))"

text \<open>Lines 163 to 177.\<close>

definition finish_stream :: "config \<Rightarrow> chat_request \<Rightarrow> string \<Rightarrow> message \<Rightarrow> chat_state \<Rightarrow>
    (failure \<times> js_error + message) \<times> chat_state" where
  "finish_stream cfg chatRequest streamedResponse responseMessage st =
     (if startsWith streamedResponse function_call_prefix then
        (case parse cfg streamedResponse of
           Inl err \<Rightarrow> (Inl (MalformedFunctionCallFailure, err), st)
         | Inr parsed \<Rightarrow>
             (case get_property parsed ''function_call'' of
                Inl err \<Rightarrow> (Inl (MalformedFunctionCallFailure, err), st)
              | Inr parsedFunctionCall \<Rightarrow>
                  (let responseMessage' = responseMessage\<lparr>function_call := parsedFunctionCall\<rparr>
                   in call_onFinish cfg responseMessage'
                        (mutate cfg PostStream (messages chatRequest @ [responseMessage']) st))))
      else call_onFinish cfg responseMessage st)"

text \<open>Line 119: \<^verbatim>\<open>new Error((await res.text()) || 'Failed to fetch the chat response.')\<close>\<close>

definition status_error :: "string \<Rightarrow> js_error" where
  "status_error t = new_Error (if t = [] then ''Failed to fetch the chat response.'' else t)"

text \<open>Lines 116 to 177: the status check, the body check, the reads and the completion.\<close>

definition consume_response :: "config \<Rightarrow> env \<Rightarrow> chat_request \<Rightarrow> message list \<Rightarrow> nat option \<Rightarrow>
    response \<Rightarrow> chat_state \<Rightarrow> (failure \<times> js_error + message) \<times> chat_state" where
  "consume_response cfg ev chatRequest previousMessages abortControllerRef res st =
     (if \<not> res_ok res then
        (let st1 = await ev (mutate cfg Rollback previousMessages st)
         in case res_text res of
              Inl err \<Rightarrow> (Inl (HTTPStatusFailure, err), st1)
            | Inr t \<Rightarrow> (Inl (HTTPStatusFailure, status_error t), st1))
      else
        (case res_body res of
           None \<Rightarrow> (Inl (EmptyBodyFailure, new_Error ''The response body is empty.''), st)
         | Some reads \<Rightarrow>
             (let responseMessage =
                    \<lparr>msg_id = nanoid_at ev (ids st), createdAt = now_at ev (awaits st),
                     role = Assistant, content = [], name = None, function_call = None\<rparr>;
                  st1 = st\<lparr>ids := Suc (ids st)\<rparr>
              in case read_loop cfg ev chatRequest abortControllerRef reads
                        ([], responseMessage) st1 of
                   (Inl err, st2) \<Rightarrow> (Inl (BodyReadFailure, err), st2)
                 | (Inr (streamedResponse, responseMessage'), st2) \<Rightarrow>
                     finish_stream cfg chatRequest streamedResponse responseMessage' st2)))"

text \<open>Lines 69 to 101: the optimistic update, and the \<^verbatim>\<open>fetch\<close> being called.\<close>

definition send_request :: "config \<Rightarrow> chat_request \<Rightarrow> nat option \<Rightarrow> chat_state \<Rightarrow> chat_state" where
  "send_request cfg chatRequest abortControllerRef st =
     (let st1 = mutate cfg Optimistic (messages chatRequest) st
      in (emit (Fetched (fetch_args cfg chatRequest abortControllerRef)) st1)
           \<lparr>fetches := Suc (fetches st1)\<rparr>)"

text \<open>Lines 66 to 178.\<close>

definition getStreamedResponse :: "config \<Rightarrow> env \<Rightarrow> chat_request \<Rightarrow> message list \<Rightarrow>
    nat option \<Rightarrow> chat_state \<Rightarrow> (failure \<times> js_error + message) \<times> chat_state" where
  "getStreamedResponse cfg ev chatRequest previousMessages abortControllerRef st =
     (let st2 = await ev (send_request cfg chatRequest abortControllerRef st)
      in case fetch_at ev (fetches st) of
           Inl err \<Rightarrow> (Inl (NetworkFailure, err), mutate cfg Rollback previousMessages st2)
         | Inr res \<Rightarrow>
             (case onResponse cfg of
                None \<Rightarrow>
                  consume_response cfg ev chatRequest previousMessages abortControllerRef res st2
              | Some callback \<Rightarrow>
                  (let st3 = await ev st2
                   in case callback res of
                        Some err \<Rightarrow> (Inl (ResponseCallbackFailure, err), st3)
                      | None \<Rightarrow>
                          consume_response cfg ev chatRequest previousMessages
                            abortControllerRef res st3)))"

subsection \<open>The request orchestrator\<close>

text \<open>What a promise of \<^verbatim>\<open>string | null | undefined\<close> settles to.\<close>

datatype result = RString string | RNull | RUndefined

datatype settled = Resolved result | Rejected js_error

text \<open>
  Lines 225 to 266, the \<^verbatim>\<open>while (true)\<close> of \<^verbatim>\<open>triggerRequest\<close>. Nothing bounds
  the number of rounds, so the loop is a partial function: \<open>None\<close> is the loop that
  never ends. \<open>Inl err\<close> is an exception leaving the loop, \<open>Inr ()\<close> a \<^verbatim>\<open>break\<close>.
  The engine is handed \<^verbatim>\<open>get(messages)\<close> and the current value of
  \<^verbatim>\<open>abortController\<close>.
\<close>

partial_function (option) request_loop :: "config \<Rightarrow> env \<Rightarrow> chat_request \<Rightarrow> chat_state \<Rightarrow>
    ((js_error + unit) \<times> chat_state) option" where
  "request_loop cfg ev chatRequest st =
     (case getStreamedResponse cfg ev chatRequest (data st) (abortController st) st of
        (Inl (site, err), st1) \<Rightarrow> Some (Inl err, await ev st1)
      | (Inr streamedResponseMessage, st1') \<Rightarrow>
          (let st1 = await ev st1'
           in case function_call streamedResponseMessage of
                None \<Rightarrow> Some (Inr (), st1)
              | Some functionCall \<Rightarrow>
                  if is_string functionCall then Some (Inr (), st1)
                  else
                    (case onFunctionCall cfg of
                       None \<Rightarrow> request_loop cfg ev chatRequest st1
                     | Some handler \<Rightarrow>
                         (let st2 = await ev st1
                          in case handler (data st1) functionCall of
                               Inl err \<Rightarrow> Some (Inl err, st2)
                             | Inr None \<Rightarrow> Some (Inr (), st2)
                             | Inr (Some onFunctionCallResponse) \<Rightarrow>
                                 request_loop cfg ev onFunctionCallResponse st2))))"

declare request_loop.simps [code]

text \<open>The \<^verbatim>\<open>finally\<close> of \<^verbatim>\<open>triggerRequest\<close>.\<close>

definition finally_block :: "chat_state \<Rightarrow> chat_state" where
  "finally_block st = emit (LoadingSet False) (st\<lparr>isLoading := False\<rparr>)"

text \<open>\<^verbatim>\<open>get(messages).at(-1)?.content ?? ''\<close>\<close>

definition last_content :: "message list \<Rightarrow> string" where
  "last_content ms = (if ms = [] then [] else content (last ms))"

text \<open>Lines 222 and 223: the flag is raised and a new controller is created.\<close>

definition start_request :: "chat_state \<Rightarrow> chat_state" where
  "start_request st =
     (emit (LoadingSet True) (st\<lparr>isLoading := True\<rparr>))
       \<lparr>abortController := Some (controllers st), controllers := Suc (controllers st)\<rparr>"

text \<open>Lines 220 to 286.\<close>

definition triggerRequest :: "config \<Rightarrow> env \<Rightarrow> chat_request \<Rightarrow> chat_state \<Rightarrow>
    (settled \<times> chat_state) option" where
  "triggerRequest cfg ev chatRequest st =
     (case request_loop cfg ev chatRequest (start_request st) of
        None \<Rightarrow> None
      | Some (Inr u, st1) \<Rightarrow>
          (let st2 = st1\<lparr>abortController := None\<rparr>
           in Some (Resolved (RString (last_content (data st2))), finally_block st2))
      | Some (Inl err, st1) \<Rightarrow>
          if err_name err = ''AbortError''
          then Some (Resolved RNull, finally_block (st1\<lparr>abortController := None\<rparr>))
          else
            (case (case onError cfg of
                     None \<Rightarrow> None
                   | Some callback \<Rightarrow> if instanceof_Error err then callback err else None) of
               Some thrown \<Rightarrow> Some (Rejected thrown, finally_block st1)
             | None \<Rightarrow>
                 Some (Resolved RUndefined,
                       finally_block (emit (ErrorSet err) (st1\<lparr>error := Some err\<rparr>)))))"

text \<open>
  Lines 290 to 299 of \<^verbatim>\<open>append\<close>: the id is filled in and the request is built.
  \<^verbatim>\<open>!message.id\<close> holds for a missing id and for the empty string.
\<close>

definition append_request :: "create_message \<Rightarrow> chat_request_options option \<Rightarrow> env \<Rightarrow>
    chat_state \<Rightarrow> chat_request \<times> chat_state" where
  "append_request message chatOptions ev st =
     (let (the_id, st1) =
            (case new_id message of
               None \<Rightarrow> (nanoid_at ev (ids st), st\<lparr>ids := Suc (ids st)\<rparr>)
             | Some i \<Rightarrow>
                 if i = [] then (nanoid_at ev (ids st), st\<lparr>ids := Suc (ids st)\<rparr>)
                 else (i, st))
      in (\<lparr>messages = data st @
             [\<lparr>msg_id = the_id, createdAt = new_createdAt message, role = new_role message,
               content = new_content message, name = new_name message,
               function_call = new_function_call message\<rparr>],
           req_options = (case chatOptions of None \<Rightarrow> None | Some c \<Rightarrow> cro_options c),
           req_functions = (case chatOptions of None \<Rightarrow> None | Some c \<Rightarrow> cro_functions c),
           req_function_call =
             (case chatOptions of None \<Rightarrow> None | Some c \<Rightarrow> cro_function_call c)\<rparr>,
          st1))"

text \<open>Lines 288 to 301.\<close>

definition append :: "create_message \<Rightarrow> chat_request_options option \<Rightarrow> config \<Rightarrow> env \<Rightarrow>
    chat_state \<Rightarrow> (settled \<times> chat_state) option" where
  "append message chatOptions cfg ev st =
     (case append_request message chatOptions ev st of
        (chatRequest, st1) \<Rightarrow> triggerRequest cfg ev chatRequest st1)"

text \<open>Lines 303 to 320. \<^verbatim>\<open>slice(0, -1)\<close> is \<open>butlast\<close>.\<close>

definition reload :: "chat_request_options \<Rightarrow> config \<Rightarrow> env \<Rightarrow> chat_state \<Rightarrow>
    (settled \<times> chat_state) option" where
  "reload opts cfg ev st =
     (let messagesSnapshot = data st
      in if messagesSnapshot = [] then Some (Resolved RNull, st)
         else if role (last messagesSnapshot) = Assistant then
           triggerRequest cfg ev
             \<lparr>messages = butlast messagesSnapshot, req_options = cro_options opts,
              req_functions = cro_functions opts, req_function_call = cro_function_call opts\<rparr>
             st
         else Some (Resolved RUndefined, st))"

subsection \<open>The state after \<^verbatim>\<open>useChat\<close>\<close>

text \<open>
  Lines 198 to 219: the cell holds \<^verbatim>\<open>initialMessages\<close>, there is no error, nothing
  is loading and there is no controller. The module-level store is the given one.
\<close>

definition useChat :: "message list \<Rightarrow> (string \<rightharpoonup> message list) \<Rightarrow> chat_state" where
  "useChat initialMessages global_store =
     \<lparr>store = global_store, data = initialMessages, error = None, isLoading = False,
      abortController = None, aborted = [], controllers = 0, awaits = 0, fetches = 0, ids = 0,
      trace = []\<rparr>"

subsection \<open>Properties of states and runs\<close>

text \<open>The store's entry for the session key is the list in the observable cell.\<close>

definition synced :: "config \<Rightarrow> chat_state \<Rightarrow> bool" where
  "synced cfg st = (store st (key cfg) = Some (data st))"

text \<open>The effects a run has added to the trace.\<close>

definition new_effects :: "chat_state \<Rightarrow> chat_state \<Rightarrow> effect list" where
  "new_effects st st' = drop (length (trace st)) (trace st')"


fun is_loading_set :: "effect \<Rightarrow> bool" where
  "is_loading_set (LoadingSet b) = True"
| "is_loading_set e = False"

fun is_error_set :: "effect \<Rightarrow> bool" where
  "is_error_set (ErrorSet err) = True"
| "is_error_set e = False"

text \<open>An effect that writes neither the loading flag nor the error cell.\<close>

definition quiet :: "effect \<Rightarrow> bool" where
  "quiet e = (\<not> is_loading_set e \<and> \<not> is_error_set e)"

text \<open>
  What the engine and the loop between two rounds do to the state, step by step: they
  publish, fetch, cancel the reader, suspend and draw ids.
\<close>

inductive steps :: "config \<Rightarrow> chat_state \<Rightarrow> chat_state \<Rightarrow> bool" for cfg :: config where
  steps_refl: "steps cfg st st"
| steps_publish: "steps cfg st st' \<Longrightarrow> steps cfg st (mutate cfg kind ms st')"
| steps_fetch: "steps cfg st st' \<Longrightarrow> steps cfg st ((emit (Fetched rq) st')\<lparr>fetches := n\<rparr>)"
| steps_cancel: "steps cfg st st' \<Longrightarrow> steps cfg st (emit ReaderCancelled st')"
| steps_await: "steps cfg st st' \<Longrightarrow> steps cfg st (await ev st')"
| steps_id: "steps cfg st st' \<Longrightarrow> steps cfg st (st'\<lparr>ids := n\<rparr>)"

subsection \<open>Configurations, servers and schedules to run the hook on\<close>

definition plain_config :: config where
  "plain_config =
     \<lparr>api = ''/api/chat'', chatId = ''chat-0'', sendExtraMessageFields = False,
      onFunctionCall = None, onResponse = None, onFinish = None, onError = None,
      headers = [], body_extra = [], parse = json_parse\<rparr>"

definition hi :: message where
  "hi = \<lparr>msg_id = ''u1'', createdAt = 0, role = User, content = ''hi'', name = None,
     function_call = None\<rparr>"

definition ask :: chat_request where
  "ask = \<lparr>messages = [hi], req_options = None, req_functions = None,
     req_function_call = None\<rparr>"

text \<open>A successful response that delivers the given chunks and then ends.\<close>

definition streaming :: "string list \<Rightarrow> js_error + response" where
  "streaming chunks =
     Inr \<lparr>res_ok = True, res_text = Inr (concat chunks), res_body = Some (map Chunk chunks)\<rparr>"

text \<open>An environment with the given server and the given schedule of \<^verbatim>\<open>stop()\<close>.\<close>

definition world :: "(nat \<Rightarrow> js_error + response) \<Rightarrow> (nat \<Rightarrow> bool) \<Rightarrow> env" where
  "world server schedule =
     \<lparr>fetch_at = server, nanoid_at = (\<lambda>n. ''id'' @ replicate n (CHR ''x'')),
      now_at = (\<lambda>n. n), stop_at = schedule\<rparr>"

definition never :: "nat \<Rightarrow> bool" where
  "never n = False"

definition function_call_text :: string where
  \<open>function_call_text = ''{"function_call": {"name":"f","arguments":"{}"}}''\<close>

definition function_call_object :: json where
  "function_call_object = JObject [(''name'', JString ''f''), (''arguments'', JString ''{}'')]"

definition AbortError :: js_error where
  "AbortError = \<lparr>err_name = ''AbortError'', err_message = ''The user aborted a request.'',
     instanceof_Error = True\<rparr>"

text \<open>A request answered by the two chunks \<^verbatim>\<open>Hel\<close> and \<^verbatim>\<open>lo\<close>, with no stop.\<close>

definition hello_run :: "(settled \<times> chat_state) option" where
  "hello_run =
     triggerRequest plain_config (world (\<lambda>n. streaming [''Hel'', ''lo'']) never) ask
       (useChat [] Map.empty)"

text \<open>
  A response whose body delivers \<^verbatim>\<open>Hel\<close> and whose next read rejects with an
  \<^verbatim>\<open>AbortError\<close>, as a read does once the signal of its request is aborted.
\<close>

definition failing_read_server :: "nat \<Rightarrow> js_error + response" where
  "failing_read_server n =
     Inr \<lparr>res_ok = True, res_text = Inr [],
          res_body = Some [Chunk ''Hel'', ReadFails AbortError]\<rparr>"

text \<open>
  A function-call handler that answers every call by a request for the history it is
  given, followed by the function's result.
\<close>

definition answering_handler :: "message list \<Rightarrow> json \<Rightarrow> js_error + chat_request option" where
  "answering_handler ms functionCall =
     Inr (Some \<lparr>messages = ms @
                  [\<lparr>msg_id = ''r1'', createdAt = 0, role = Function, content = ''42'',
                    name = Some ''f'', function_call = None\<rparr>],
                req_options = None, req_functions = None, req_function_call = None\<rparr>)"

definition handler_config :: config where
  "handler_config = plain_config\<lparr>onFunctionCall := Some answering_handler\<rparr>"

text \<open>A server that answers the first request by the function call, in one chunk, and
  every later one by the given chunks.\<close>

definition two_round_server :: "string list \<Rightarrow> nat \<Rightarrow> js_error + response" where
  "two_round_server second n =
     (if n = 0 then streaming [function_call_text] else streaming second)"

text \<open>A server that answers every request by the function call, in one chunk.\<close>

definition function_call_server :: "nat \<Rightarrow> js_error + response" where
  "function_call_server n = streaming [function_call_text]"

text \<open>A server that answers by the function call in two chunks, the first of the given
  length.\<close>

definition split_server :: "nat \<Rightarrow> nat \<Rightarrow> js_error + response" where
  "split_server k n = streaming [take k function_call_text, drop k function_call_text]"

definition reply :: message where
  "reply = \<lparr>msg_id = ''a1'', createdAt = 1, role = Assistant, content = ''hello'', name = None,
     function_call = None\<rparr>"

text \<open>A message for \<^verbatim>\<open>append\<close>, with the given id or none.\<close>

definition draft :: "string option \<Rightarrow> create_message" where
  "draft i = \<lparr>new_id = i, new_createdAt = 5, new_role = User, new_content = ''more'',
     new_name = None, new_function_call = None\<rparr>"

definition no_options :: chat_request_options where
  "no_options = \<lparr>cro_options = None, cro_functions = None, cro_function_call = None\<rparr>"




section \<open>Proofs\<close>

subsection \<open>The engine and the loop only take steps\<close>

lemma steps_trans: "steps cfg st1 st2 \<Longrightarrow> steps cfg st0 st1 \<Longrightarrow> steps cfg st0 st2"
  by (induction rule: steps.induct) (auto intro: steps.intros)

lemma steps_read_loop: "steps cfg st (snd (read_loop cfg ev req ref reads sr st))"
proof (induction cfg ev req ref reads sr st rule: read_loop.induct)
  case (1 cfg ev req ref sr st)
  show ?case by (simp add: steps_await steps_refl)
next
  case (2 cfg ev req ref err reads sr st)
  show ?case by (simp add: steps_await steps_refl)
next
  case (3 cfg ev req ref decoded reads sr st)
  let ?st2 = "mutate cfg PerChunk (messages req @ [snd (merge_chunk sr decoded)]) (await ev st)"
  have a: "steps cfg st ?st2"
    by (intro steps_publish steps_await steps_refl)
  show ?case
  proof (cases ref)
    case None
    have "steps cfg st (emit ReaderCancelled ?st2)" using a by (rule steps_cancel)
    then show ?thesis using None by (simp add: Let_def)
  next
    case (Some c)
    then have False: "ref \<noteq> None" by simp
    with 3 have "steps cfg ?st2 (snd (read_loop cfg ev req ref reads (merge_chunk sr decoded) ?st2))"
      by (simp add: Let_def)
    then have "steps cfg st (snd (read_loop cfg ev req ref reads (merge_chunk sr decoded) ?st2))"
      using a by (rule steps_trans)
    then show ?thesis using Some by (simp add: Let_def)
  qed
qed

lemma steps_call_onFinish: "snd (call_onFinish cfg rm st) = st"
  by (simp add: call_onFinish_def split: option.splits)

lemma steps_finish_stream: "steps cfg st (snd (finish_stream cfg req acc rm st))"
  by (simp add: finish_stream_def Let_def steps_call_onFinish steps_refl steps_publish
      split: sum.splits)

lemma steps_consume_response:
  "steps cfg st (snd (consume_response cfg ev req prev ref res st))"
proof (cases "res_ok res")
  case False
  then show ?thesis
    by (simp add: consume_response_def Let_def steps_await steps_publish steps_refl
        split: sum.splits)
next
  case True
  show ?thesis
  proof (cases "res_body res")
    case None
    with True show ?thesis by (simp add: consume_response_def steps_refl)
  next
    case (Some reads)
    let ?rm = "\<lparr>msg_id = nanoid_at ev (ids st), createdAt = now_at ev (awaits st),
                 role = Assistant, content = [], name = None, function_call = None\<rparr>"
    let ?st1 = "st\<lparr>ids := Suc (ids st)\<rparr>"
    let ?r = "read_loop cfg ev req ref reads ([], ?rm) ?st1"
    have a: "steps cfg st (snd ?r)"
      using steps_read_loop [of cfg ?st1 ev req ref reads "([], ?rm)"] steps_id [OF steps_refl, of cfg st "Suc (ids st)"]
      by (rule steps_trans)
    obtain x st2 where r: "?r = (x, st2)" by (cases ?r)
    with a have a': "steps cfg st st2" by simp
    show ?thesis
    proof (cases x)
      case (Inl e)
      then show ?thesis using True Some a' r
        by (simp add: consume_response_def Let_def)
    next
      case (Inr sr)
      have "steps cfg st2 (snd (finish_stream cfg req (fst sr) (snd sr) st2))"
        by (rule steps_finish_stream)
      then have "steps cfg st (snd (finish_stream cfg req (fst sr) (snd sr) st2))"
        using a' by (rule steps_trans)
      then show ?thesis using True Some Inr r
        by (auto simp add: consume_response_def Let_def split: prod.splits)
    qed
  qed
qed

lemma steps_engine:
  "steps cfg (send_request cfg req ref st) (snd (getStreamedResponse cfg ev req prev ref st))"
proof -
  let ?st1 = "send_request cfg req ref st"
  let ?st2 = "await ev ?st1"
  have a: "steps cfg ?st1 ?st2"
    by (intro steps_await steps_refl)
  have b: "steps cfg ?st1 (await ev ?st2)"
    by (intro steps_await steps_refl)
  have c: "steps cfg ?st1 (snd (consume_response cfg ev req prev ref res ?st2))" for res
    using steps_consume_response a by (rule steps_trans)
  have d: "steps cfg ?st1 (snd (consume_response cfg ev req prev ref res (await ev ?st2)))" for res
    using steps_consume_response b by (rule steps_trans)
  show ?thesis
    using a b c d
    by (simp add: getStreamedResponse_def Let_def steps_publish split: sum.splits option.splits)
qed

lemma steps_send_request: "steps cfg st (send_request cfg req ref st)"
  unfolding send_request_def Let_def by (intro steps_fetch steps_publish steps_refl)

lemma steps_request_loop:
  assumes "request_loop cfg ev req st = Some out"
  shows "steps cfg (send_request cfg req (abortController st) st) (snd out)"
  using assms
proof (rule request_loop.raw_induct
    [rotated 1, where P = "\<lambda>cfg ev req st out.
       steps cfg (send_request cfg req (abortController st) st) (snd out)"])
  fix loop :: "config \<Rightarrow> env \<Rightarrow> chat_request \<Rightarrow> chat_state \<Rightarrow>
      ((js_error + unit) \<times> chat_state) option"
    and cfg ev req st out
  assume IH: "\<And>cfg ev req st out. loop cfg ev req st = Some out \<Longrightarrow>
              steps cfg (send_request cfg req (abortController st) st) (snd out)"
  assume body: "(case getStreamedResponse cfg ev req (data st) (abortController st) st of
        (Inl (site, err), st1) \<Rightarrow> Some (Inl err, await ev st1)
      | (Inr streamedResponseMessage, st1') \<Rightarrow>
          (let st1 = await ev st1'
           in case function_call streamedResponseMessage of
                None \<Rightarrow> Some (Inr (), st1)
              | Some functionCall \<Rightarrow>
                  if is_string functionCall then Some (Inr (), st1)
                  else
                    (case onFunctionCall cfg of
                       None \<Rightarrow> loop cfg ev req st1
                     | Some handler \<Rightarrow>
                         (let st2 = await ev st1
                          in case handler (data st1) functionCall of
                               Inl err \<Rightarrow> Some (Inl err, st2)
                             | Inr None \<Rightarrow> Some (Inr (), st2)
                             | Inr (Some onFunctionCallResponse) \<Rightarrow>
                                 loop cfg ev onFunctionCallResponse st2)))) = Some out"
  let ?e = "getStreamedResponse cfg ev req (data st) (abortController st) st"
  let ?m = "send_request cfg req (abortController st) st"
  have e: "steps cfg ?m (snd ?e)" by (rule steps_engine)
  then have ea: "steps cfg ?m (await ev (snd ?e))" by (rule steps_await)
  then have eaa: "steps cfg ?m (await ev (await ev (snd ?e)))" by (rule steps_await)
  have rec: "steps cfg ?m (snd y)" if "loop cfg ev req' st' = Some y" "steps cfg ?m st'" for req' st' y
  proof -
    from IH [OF that(1)]
    have "steps cfg (send_request cfg req' (abortController st') st') (snd y)" .
    moreover have "steps cfg ?m (send_request cfg req' (abortController st') st')"
      using steps_send_request that(2) by (rule steps_trans)
    ultimately show ?thesis by (rule steps_trans)
  qed
  from body show "steps cfg ?m (snd out)"
    using ea eaa rec
    by (auto simp add: Let_def split: prod.splits sum.splits option.splits if_splits)
qed

subsection \<open>What the steps preserve\<close>

lemma steps_isLoading: "steps cfg st st' \<Longrightarrow> isLoading st' = isLoading st"
  by (induction rule: steps.induct)
     (simp_all add: mutate_def emit_def await_def stop_def Let_def split: option.splits)

lemma steps_error: "steps cfg st st' \<Longrightarrow> error st' = error st"
  by (induction rule: steps.induct)
     (simp_all add: mutate_def emit_def await_def stop_def Let_def split: option.splits)

lemma steps_synced: "steps cfg st st' \<Longrightarrow> synced cfg st \<Longrightarrow> synced cfg st'"
  by (induction rule: steps.induct)
     (simp_all add: synced_def mutate_def emit_def await_def stop_def Let_def split: option.splits)

lemma steps_trace:
  "steps cfg st st' \<Longrightarrow> \<exists>evs. trace st' = trace st @ evs \<and> list_all quiet evs"
proof (induction rule: steps.induct)
  case (steps_refl st)
  show ?case by simp
next
  case (steps_publish st st' kind ms)
  then obtain evs where "trace st' = trace st @ evs" "list_all quiet evs" by blast
  then have "trace (mutate cfg kind ms st') = trace st @ (evs @ [Published kind ms]) \<and>
      list_all quiet (evs @ [Published kind ms])"
    by (simp add: mutate_def emit_def quiet_def)
  then show ?case by blast
next
  case (steps_fetch st st' n rq)
  then obtain evs where "trace st' = trace st @ evs" "list_all quiet evs" by blast
  then have "trace ((emit (Fetched rq) st')\<lparr>fetches := n\<rparr>) = trace st @ (evs @ [Fetched rq]) \<and>
      list_all quiet (evs @ [Fetched rq])"
    by (simp add: emit_def quiet_def)
  then show ?case by blast
next
  case (steps_cancel st st')
  then obtain evs where "trace st' = trace st @ evs" "list_all quiet evs" by blast
  then have "trace (emit ReaderCancelled st') = trace st @ (evs @ [ReaderCancelled]) \<and>
      list_all quiet (evs @ [ReaderCancelled])"
    by (simp add: emit_def quiet_def)
  then show ?case by blast
next
  case (steps_await st st' ev)
  then obtain evs where evs: "trace st' = trace st @ evs" "list_all quiet evs" by blast
  show ?case
  proof (cases "stop_at ev (awaits st') \<and> abortController st' \<noteq> None")
    case True
    then obtain c where c: "abortController st' = Some c" by auto
    with True evs have "trace (await ev st') = trace st @ (evs @ [SignalAborted c]) \<and>
        list_all quiet (evs @ [SignalAborted c])"
      by (simp add: await_def stop_def emit_def quiet_def Let_def)
    then show ?thesis by blast
  next
    case False
    with evs have "trace (await ev st') = trace st @ evs"
      by (auto simp add: await_def stop_def emit_def Let_def split: option.splits)
    with evs show ?thesis by blast
  qed
next
  case (steps_id st st' n)
  then show ?case by simp
qed

lemma trace_send_request:
  "trace (send_request cfg req ref st) =
     trace st @ [Published Optimistic (messages req), Fetched (fetch_args cfg req ref)]"
  by (simp add: send_request_def mutate_def emit_def Let_def)

lemma synced_send_request: "synced cfg (send_request cfg req ref st)"
  by (simp add: send_request_def mutate_def emit_def Let_def synced_def)

lemma loop_trace:
  assumes "request_loop cfg ev req st = Some (x, st1)"
  shows "\<exists>evs. trace st1 = trace st @ Published Optimistic (messages req) #
            Fetched (fetch_args cfg req (abortController st)) # evs \<and> list_all quiet evs"
proof -
  from steps_trace [OF steps_request_loop [OF assms]]
  show ?thesis by (simp add: trace_send_request)
qed

lemma loop_isLoading:
  assumes "request_loop cfg ev req st = Some (x, st1)"
  shows "isLoading st1 = isLoading st" "error st1 = error st" "synced cfg st1"
proof -
  have s: "steps cfg (send_request cfg req (abortController st) st) st1"
    using steps_request_loop [OF assms] by simp
  have s': "steps cfg st st1" using s steps_send_request by (rule steps_trans)
  show "isLoading st1 = isLoading st" using s' by (rule steps_isLoading)
  show "error st1 = error st" using s' by (rule steps_error)
  show "synced cfg st1" using s synced_send_request by (rule steps_synced)
qed

lemma triggerRequest_loop:
  assumes "triggerRequest cfg ev req st = Some out"
  obtains x st1 where "request_loop cfg ev req (start_request st) = Some (x, st1)"
  using assms by (auto simp add: triggerRequest_def split: option.splits)

text \<open>The tail of the trace that the catch and the finally add.\<close>

lemma triggerRequest_tail:
  assumes "triggerRequest cfg ev req st = Some (r, st')"
    and "request_loop cfg ev req (start_request st) = Some (x, st1)"
  shows "isLoading st' = False"
    and "data st' = data st1" and "store st' = store st1"
    and "\<exists>tl. trace st' = trace st1 @ tl @ [LoadingSet False] \<and> list_all (\<lambda>e. \<not> is_loading_set e) tl"
proof -
  have *: "isLoading st' = False \<and> data st' = data st1 \<and> store st' = store st1 \<and>
    (trace st' = trace st1 @ [] @ [LoadingSet False] \<or>
     (\<exists>err. trace st' = trace st1 @ [ErrorSet err] @ [LoadingSet False]))"
    using assms
    by (auto simp add: triggerRequest_def finally_block_def emit_def Let_def
        split: sum.splits option.splits if_splits)
  then show "isLoading st' = False" "data st' = data st1" "store st' = store st1" by simp_all
  from * show "\<exists>tl. trace st' = trace st1 @ tl @ [LoadingSet False] \<and> list_all (\<lambda>e. \<not> is_loading_set e) tl"
  proof (elim conjE disjE exE)
    assume "trace st' = trace st1 @ [] @ [LoadingSet False]"
    then have "trace st' = trace st1 @ [] @ [LoadingSet False] \<and> list_all (\<lambda>e. \<not> is_loading_set e) []"
      by simp
    then show ?thesis by blast
  next
    fix err assume "trace st' = trace st1 @ [ErrorSet err] @ [LoadingSet False]"
    then have "trace st' = trace st1 @ [ErrorSet err] @ [LoadingSet False] \<and>
        list_all (\<lambda>e. \<not> is_loading_set e) [ErrorSet err]"
      by simp
    then show ?thesis by blast
  qed
qed

subsection \<open>Runs and their first effects\<close>



lemma triggerRequest_effects:
  assumes "triggerRequest cfg ev chatRequest st = Some (r, st')"
  shows "\<exists>evs. new_effects st st' = LoadingSet True # Published Optimistic (messages chatRequest) #
            Fetched (fetch_args cfg chatRequest (Some (controllers st))) # evs"
proof -
  from assms obtain x st1 where
    loop: "request_loop cfg ev chatRequest (start_request st) = Some (x, st1)"
    by (rule triggerRequest_loop)
  from loop_trace [OF loop] obtain evs where
    evs: "trace st1 = trace (start_request st) @ Published Optimistic (messages chatRequest) #
            Fetched (fetch_args cfg chatRequest (abortController (start_request st))) # evs"
    by blast
  from triggerRequest_tail(4) [OF assms loop] obtain tl where
    tl: "trace st' = trace st1 @ tl @ [LoadingSet False]"
    by blast
  have "new_effects st st' = LoadingSet True # Published Optimistic (messages chatRequest) #
      Fetched (fetch_args cfg chatRequest (Some (controllers st))) # (evs @ tl @ [LoadingSet False])"
    using evs tl by (simp add: new_effects_def start_request_def emit_def)
  then show ?thesis by blast
qed

lemma triggerRequest_first_effects:
  assumes "triggerRequest cfg ev chatRequest st = Some (r, st')"
  shows "take 3 (new_effects st st') = [LoadingSet True, Published Optimistic (messages chatRequest),
            Fetched (fetch_args cfg chatRequest (Some (controllers st)))]"
  using triggerRequest_effects [OF assms] by auto

subsection \<open>Facts to evaluate runs with\<close>

lemma the_run: "x \<noteq> None \<Longrightarrow> x = Some (fst (the x), snd (the x))"
  by auto

lemma loop_result: "map_option fst x = Some a \<Longrightarrow> x = Some (a, snd (the x))"
  by (cases x) auto


lemma parse_function_call_text:
  "json_parse function_call_text = Inr (JObject [(''function_call'', function_call_object)])"
  by code_simp

lemma function_call_text_prefix: "startsWith function_call_text function_call_prefix"
  by code_simp

lemma function_call_object_not_string: "\<not> is_string function_call_object"
  by (simp add: function_call_object_def)

subsection \<open>The loading flag\<close>

text \<open>
  Claim C8. Whenever \<^verbatim>\<open>triggerRequest\<close> settles, with a value, with an error put into
  the error cell, with a cancellation or with a rejection, the loading flag is false at
  the end. The first effect of the call is to set the flag to true, the last is to set
  it to false, and the flag is not written in between.
\<close>

theorem loading_flag_raised_and_lowered:
  assumes "triggerRequest cfg ev chatRequest st = Some (r, st')"
  shows "isLoading st' = False \<and>
         trace st' = trace st @ new_effects st st' \<and>
         hd (new_effects st st') = LoadingSet True \<and>
         last (new_effects st st') = LoadingSet False \<and>
         filter is_loading_set (new_effects st st') = [LoadingSet True, LoadingSet False]"
proof -
  from assms obtain x st1 where
    loop: "request_loop cfg ev chatRequest (start_request st) = Some (x, st1)"
    by (rule triggerRequest_loop)
  from loop_trace [OF loop] obtain evs where
    evs: "trace st1 = trace (start_request st) @ Published Optimistic (messages chatRequest) #
            Fetched (fetch_args cfg chatRequest (abortController (start_request st))) # evs"
      "list_all quiet evs"
    by blast
  from triggerRequest_tail [OF assms loop] obtain tl where
    tl: "isLoading st' = False" "trace st' = trace st1 @ tl @ [LoadingSet False]"
      "list_all (\<lambda>e. \<not> is_loading_set e) tl"
    by blast
  have start: "trace (start_request st) = trace st @ [LoadingSet True]"
    by (simp add: start_request_def emit_def)
  let ?mid = "Published Optimistic (messages chatRequest) #
      Fetched (fetch_args cfg chatRequest (abortController (start_request st))) # evs @ tl"
  have new: "new_effects st st' = LoadingSet True # ?mid @ [LoadingSet False]"
    using evs(1) tl(2) start by (simp add: new_effects_def)
  have mid: "filter is_loading_set ?mid = []"
    using evs(2) tl(3) by (auto simp add: quiet_def list_all_iff filter_empty_conv)
  have "trace st' = trace st @ new_effects st st'"
    using evs(1) tl(2) start new by simp
  moreover have "filter is_loading_set (new_effects st st') = [LoadingSet True, LoadingSet False]"
    unfolding new using mid by simp
  moreover have "hd (new_effects st st') = LoadingSet True" unfolding new by simp
  moreover have "last (new_effects st st') = LoadingSet False" unfolding new by simp
  ultimately show ?thesis using tl(1) by simp
qed

text \<open>
  The witness: a request that is answered by two chunks and resolves to their text.
\<close>

theorem loading_flag_raised_and_lowered_witness:
  "hello_run \<noteq> None \<and>
   isLoading (snd (the hello_run)) = False \<and>
   hd (new_effects (useChat [] Map.empty) (snd (the hello_run))) = LoadingSet True \<and>
   last (new_effects (useChat [] Map.empty) (snd (the hello_run))) = LoadingSet False \<and>
   filter is_loading_set (new_effects (useChat [] Map.empty) (snd (the hello_run))) =
     [LoadingSet True, LoadingSet False]"
proof -
  have ne: "hello_run \<noteq> None" unfolding hello_run_def by code_simp
  then have "triggerRequest plain_config (world (\<lambda>n. streaming [''Hel'', ''lo'']) never) ask
      (useChat [] Map.empty) = Some (fst (the hello_run), snd (the hello_run))"
    unfolding hello_run_def by (rule the_run)
  from loading_flag_raised_and_lowered [OF this] ne show ?thesis by simp
qed

subsection \<open>The store and the observable cell\<close>



subsection \<open>Cancellation\<close>

text \<open>
  Claim C7, as stated, fails. The user calls \<^verbatim>\<open>stop()\<close> while the function-call
  handler of an exchange is awaited (the fifth suspension); the handler then returns the
  next request. The engine is started with a token that is already null, stops after the
  first chunk and returns normally. In the first run the exchange resolves to the text
  of that chunk, not to null. In the second run the first chunk is the beginning of a
  function call, the parse of the incomplete text fails, and the error is put into the
  error cell.
\<close>

theorem stop_during_handler_counterexample:
  "map_option (\<lambda>out. (fst out, List.member (trace (snd out)) (SignalAborted 0),
                     isLoading (snd out)))
     (triggerRequest handler_config (world (two_round_server [''Hel'', ''lo'']) (\<lambda>n. n = 4)) ask
        (useChat [] Map.empty)) =
     Some (Resolved (RString ''Hel''), True, False) \<and>
   map_option (\<lambda>out. (fst out, map_option err_name (error (snd out))))
     (triggerRequest handler_config
        (world (two_round_server [take 22 function_call_text, drop 22 function_call_text])
           (\<lambda>n. n = 4))
        ask (useChat [] Map.empty)) =
     Some (Resolved RUndefined, Some ''SyntaxError'')"
  by code_simp

text \<open>
  Claim C7, amended. When the loop of an exchange is left by an exception named
  \<^verbatim>\<open>AbortError\<close>, which is how an aborted signal surfaces from \<^verbatim>\<open>fetch\<close> and from
  a read, the exchange resolves to null, the error cell keeps the value it had, no error
  is set on the way, the token is cleared and the loading flag is false.
\<close>

theorem abort_error_resolves_to_null:
  assumes "request_loop cfg ev chatRequest (start_request st) = Some (Inl err, st1)"
    and "err_name err = ''AbortError''"
  shows "triggerRequest cfg ev chatRequest st =
           Some (Resolved RNull, finally_block (st1\<lparr>abortController := None\<rparr>)) \<and>
         error (finally_block (st1\<lparr>abortController := None\<rparr>)) = error st \<and>
         isLoading (finally_block (st1\<lparr>abortController := None\<rparr>)) = False \<and>
         abortController (finally_block (st1\<lparr>abortController := None\<rparr>)) = None \<and>
         filter is_error_set
           (new_effects st (finally_block (st1\<lparr>abortController := None\<rparr>))) = []"
proof -
  let ?st' = "finally_block (st1\<lparr>abortController := None\<rparr>)"
  have run: "triggerRequest cfg ev chatRequest st = Some (Resolved RNull, ?st')"
    using assms by (simp add: triggerRequest_def)
  have "error st1 = error (start_request st)" using assms(1) by (rule loop_isLoading(2))
  then have err: "error ?st' = error st"
    by (simp add: finally_block_def emit_def start_request_def)
  from loop_trace [OF assms(1)] obtain evs where
    evs: "trace st1 = trace (start_request st) @ Published Optimistic (messages chatRequest) #
            Fetched (fetch_args cfg chatRequest (abortController (start_request st))) # evs"
      "list_all quiet evs"
    by blast
  have "new_effects st ?st' = LoadingSet True # Published Optimistic (messages chatRequest) #
      Fetched (fetch_args cfg chatRequest (abortController (start_request st))) #
      evs @ [LoadingSet False]"
    using evs(1) by (simp add: new_effects_def finally_block_def emit_def start_request_def)
  moreover have "filter is_error_set evs = []"
    using evs(2) by (auto simp add: quiet_def list_all_iff filter_empty_conv)
  ultimately have "filter is_error_set (new_effects st ?st') = []" by simp
  with run err show ?thesis by (simp add: finally_block_def emit_def)
qed

text \<open>
  The witness: \<^verbatim>\<open>stop()\<close> is called during the second read (the third suspension),
  and that read rejects with an \<^verbatim>\<open>AbortError\<close>.
\<close>

theorem abort_error_resolves_to_null_witness:
  "triggerRequest plain_config (world failing_read_server (\<lambda>n. n = 2)) ask
     (useChat [] Map.empty) =
     Some (Resolved RNull,
       finally_block
         ((snd (the (request_loop plain_config (world failing_read_server (\<lambda>n. n = 2)) ask
            (start_request (useChat [] Map.empty)))))\<lparr>abortController := None\<rparr>)) \<and>
   error (finally_block
         ((snd (the (request_loop plain_config (world failing_read_server (\<lambda>n. n = 2)) ask
            (start_request (useChat [] Map.empty)))))\<lparr>abortController := None\<rparr>)) = None"
proof -
  let ?loop = "request_loop plain_config (world failing_read_server (\<lambda>n. n = 2)) ask
         (start_request (useChat [] Map.empty))"
  have "map_option (\<lambda>out. fst out) ?loop = Some (Inl AbortError)"
    by code_simp
  then have "map_option fst ?loop = Some (Inl AbortError)" by (simp add: fst_def)
  then have loop: "?loop = Some (Inl AbortError, snd (the ?loop))" by (rule loop_result)
  have name: "err_name AbortError = ''AbortError''" by (simp add: AbortError_def)
  from abort_error_resolves_to_null [OF loop name] show ?thesis by (simp add: useChat_def)
qed

subsection \<open>A function call without a handler\<close>

lemma engine_function_call:
  "\<exists>m st1. getStreamedResponse plain_config (world function_call_server never) req prev ref st =
     (Inr m, st1) \<and> function_call m = Some function_call_object"
  by (cases ref)
     (simp_all add: getStreamedResponse_def consume_response_def finish_stream_def
        call_onFinish_def merge_chunk_def Let_def world_def function_call_server_def
        streaming_def plain_config_def parse_function_call_text function_call_text_prefix)

lemma loop_never_returns:
  "request_loop plain_config (world function_call_server never) req st \<noteq> Some out"
proof
  assume "request_loop plain_config (world function_call_server never) req st = Some out"
  then have "\<not> (plain_config = plain_config \<and>
      world function_call_server never = world function_call_server never)"
  proof (rule request_loop.raw_induct
      [rotated 1, where P = "\<lambda>cfg ev req st out.
         \<not> (cfg = plain_config \<and> ev = world function_call_server never)"])
    fix loop :: "config \<Rightarrow> env \<Rightarrow> chat_request \<Rightarrow> chat_state \<Rightarrow>
        ((js_error + unit) \<times> chat_state) option"
      and cfg ev req st out
    assume IH: "\<And>cfg ev req st out. loop cfg ev req st = Some out \<Longrightarrow>
                \<not> (cfg = plain_config \<and> ev = world function_call_server never)"
    assume body: "(case getStreamedResponse cfg ev req (data st) (abortController st) st of
          (Inl (site, err), st1) \<Rightarrow> Some (Inl err, await ev st1)
        | (Inr streamedResponseMessage, st1') \<Rightarrow>
            (let st1 = await ev st1'
             in case function_call streamedResponseMessage of
                  None \<Rightarrow> Some (Inr (), st1)
                | Some functionCall \<Rightarrow>
                    if is_string functionCall then Some (Inr (), st1)
                    else
                      (case onFunctionCall cfg of
                         None \<Rightarrow> loop cfg ev req st1
                       | Some handler \<Rightarrow>
                           (let st2 = await ev st1
                            in case handler (data st1) functionCall of
                                 Inl err \<Rightarrow> Some (Inl err, st2)
                               | Inr None \<Rightarrow> Some (Inr (), st2)
                               | Inr (Some onFunctionCallResponse) \<Rightarrow>
                                   loop cfg ev onFunctionCallResponse st2)))) = Some out"
    show "\<not> (cfg = plain_config \<and> ev = world function_call_server never)"
    proof
      assume c: "cfg = plain_config \<and> ev = world function_call_server never"
      from engine_function_call obtain m st1 where
        e: "getStreamedResponse plain_config (world function_call_server never) req (data st)
              (abortController st) st = (Inr m, st1)"
          "function_call m = Some function_call_object"
        by blast
      have h: "onFunctionCall plain_config = None" by (simp add: plain_config_def)
      from body c e h have "loop cfg ev req (await ev st1) = Some out"
        by (simp add: function_call_object_not_string)
      from IH [OF this] c show False by simp
    qed
  qed
  then show False by simp
qed

text \<open>
  Claim C1 and the code. No handler is registered and the server answers every request
  by a structured function call. The engine returns the message, neither \<^verbatim>\<open>break\<close>
  of the loop applies, the request is unchanged, and the loop starts the next round with
  it: \<^verbatim>\<open>triggerRequest\<close> never settles. When the server answers only the first
  request by a function call, the same request is fetched twice.
\<close>

theorem loop_without_handler_never_ends:
  "triggerRequest plain_config (world function_call_server never) ask (useChat [] Map.empty) = None \<and>
   map_option (\<lambda>out. (fst out, fetches (snd out)))
     (triggerRequest plain_config (world (two_round_server [''done'']) never) ask
        (useChat [] Map.empty)) = Some (Resolved (RString ''done''), 2)"
proof
  have "request_loop plain_config (world function_call_server never) ask
      (start_request (useChat [] Map.empty)) = None"
    using loop_never_returns by (meson option.exhaust)
  then show "triggerRequest plain_config (world function_call_server never) ask
      (useChat [] Map.empty) = None"
    by (simp add: triggerRequest_def)
  show "map_option (\<lambda>out. (fst out, fetches (snd out)))
     (triggerRequest plain_config (world (two_round_server [''done'']) never) ask
        (useChat [] Map.empty)) = Some (Resolved (RString ''done''), 2)"
    by code_simp
qed

subsection \<open>The function call assembled from chunks\<close>

lemma read_loop_all_chunks:
  "fst (read_loop cfg ev req (Some c) (map Chunk cs) sr st) = Inr (foldl merge_chunk sr cs)"
  by (induction cs arbitrary: sr st) (simp_all add: Let_def)

lemma fst_foldl_merge_chunk: "fst (foldl merge_chunk sr cs) = fst sr @ concat cs"
  by (induction cs arbitrary: sr) (simp_all add: merge_chunk_def Let_def)

lemma function_call_for_any_split:
  assumes "concat chunks = function_call_text"
  shows "map_sum fst function_call
     (fst (getStreamedResponse plain_config (world (\<lambda>n. streaming chunks) schedule) req prev
        (Some c) st)) = Inr (Some function_call_object)"
proof -
  let ?ev = "world (\<lambda>n. streaming chunks) schedule"
  let ?stx = "await ?ev (send_request plain_config req (Some c) st)"
  let ?rm = "\<lparr>msg_id = nanoid_at ?ev (ids ?stx), createdAt = now_at ?ev (awaits ?stx),
      role = Assistant, content = [], name = None, function_call = None\<rparr>"
  let ?r = "read_loop plain_config ?ev req (Some c) (map Chunk chunks) ([], ?rm)
      (?stx\<lparr>ids := Suc (ids ?stx)\<rparr>)"
  obtain x st2 where r: "?r = (x, st2)" by (cases ?r)
  have "fst ?r = Inr (foldl merge_chunk ([], ?rm) chunks)" by (rule read_loop_all_chunks)
  with r have x: "x = Inr (foldl merge_chunk ([], ?rm) chunks)" by simp
  have acc: "fst (foldl merge_chunk ([], ?rm) chunks) = function_call_text"
    using assms by (simp add: fst_foldl_merge_chunk)
  obtain acc rm where sr: "foldl merge_chunk ([], ?rm) chunks = (acc, rm)"
    by (cases "foldl merge_chunk ([], ?rm) chunks")
  with acc have a: "acc = function_call_text" by simp
  have fin: "map_sum fst function_call (fst (finish_stream plain_config req function_call_text rm st2)) =
      Inr (Some function_call_object)"
    by (simp add: finish_stream_def call_onFinish_def Let_def plain_config_def
        function_call_text_prefix parse_function_call_text)
  show ?thesis
    using r x sr a fin
    by (simp add: getStreamedResponse_def consume_response_def Let_def world_def streaming_def
        plain_config_def)
qed

text \<open>
  Claim C3 and the code. However the text of the function call is split into chunks,
  the final message has the structured function call. Its content is not always empty.
  When the first chunk is the six characters before \<^verbatim>\<open>tion_call\<close>, the text so far
  does not start with the prefix, so it is stored in \<^verbatim>\<open>content\<close>, and nothing clears
  it later: the final message has these six characters as its content. When the first
  chunk is the whole prefix, the content stays empty.
\<close>

theorem split_prefix_leaves_content:
  "(concat chunks = function_call_text \<longrightarrow>
      map_sum fst function_call
        (fst (getStreamedResponse plain_config (world (\<lambda>n. streaming chunks) schedule)
           chatRequest previousMessages (Some c) st)) = Inr (Some function_call_object)) \<and>
   map_sum fst (\<lambda>m. (function_call m, content m))
     (fst (getStreamedResponse plain_config (world (split_server 6) never) ask [] (Some 0)
        (useChat [] Map.empty))) =
     Inr (Some function_call_object, take 6 function_call_text) \<and>
   map_sum fst (\<lambda>m. (function_call m, content m))
     (fst (getStreamedResponse plain_config (world (split_server 17) never) ask [] (Some 0)
        (useChat [] Map.empty))) =
     Inr (Some function_call_object, [])"
proof (intro conjI impI)
  show "map_sum fst function_call
        (fst (getStreamedResponse plain_config (world (\<lambda>n. streaming chunks) schedule)
           chatRequest previousMessages (Some c) st)) = Inr (Some function_call_object)"
    if "concat chunks = function_call_text"
    using that by (rule function_call_for_any_split)
  show "map_sum fst (\<lambda>m. (function_call m, content m))
     (fst (getStreamedResponse plain_config (world (split_server 6) never) ask [] (Some 0)
        (useChat [] Map.empty))) =
     Inr (Some function_call_object, take 6 function_call_text)"
    by code_simp
  show "map_sum fst (\<lambda>m. (function_call m, content m))
     (fst (getStreamedResponse plain_config (world (split_server 17) never) ask [] (Some 0)
        (useChat [] Map.empty))) =
     Inr (Some function_call_object, [])"
    by code_simp
qed

text \<open>The witness: the split after the sixth character, where the content is not empty.\<close>

theorem split_prefix_leaves_content_witness:
  "map_sum fst function_call
     (fst (getStreamedResponse plain_config
        (world (\<lambda>n. streaming [take 6 function_call_text, drop 6 function_call_text]) never)
        ask [] (Some 0) (useChat [] Map.empty))) = Inr (Some function_call_object)"
proof -
  have "concat [take 6 function_call_text, drop 6 function_call_text] = function_call_text"
    by simp
  with split_prefix_leaves_content
    [of "[take 6 function_call_text, drop 6 function_call_text]" never ask "[]" 0
       "useChat [] Map.empty"]
  show ?thesis by blast
qed

subsection \<open>\<^verbatim>\<open>append\<close> and \<^verbatim>\<open>reload\<close>\<close>

text \<open>
  Claim C9, amended. A message appended without an id, or with the empty string as its
  id, is submitted with the next id of \<^verbatim>\<open>nanoid\<close>; a message with a non-empty id
  keeps it. The request holds the history followed by this message, it is the request
  \<^verbatim>\<open>triggerRequest\<close> is called with, and in a run that settles it is the one
  published optimistically and fetched.
\<close>

theorem append_fills_in_missing_id:
  "(new_id message = None \<or> new_id message = Some [] \<longrightarrow>
      msg_id (last (messages (fst (append_request message chatOptions ev st)))) =
        nanoid_at ev (ids st)) \<and>
   (new_id message = Some i \<and> i \<noteq> [] \<longrightarrow>
      msg_id (last (messages (fst (append_request message chatOptions ev st)))) = i) \<and>
   butlast (messages (fst (append_request message chatOptions ev st))) = data st \<and>
   append message chatOptions cfg ev st =
     triggerRequest cfg ev (fst (append_request message chatOptions ev st))
       (snd (append_request message chatOptions ev st)) \<and>
   (append message chatOptions cfg ev st = Some (r, st') \<longrightarrow>
      take 3 (new_effects (snd (append_request message chatOptions ev st)) st') =
        [LoadingSet True,
         Published Optimistic (messages (fst (append_request message chatOptions ev st))),
         Fetched (fetch_args cfg (fst (append_request message chatOptions ev st))
                   (Some (controllers st)))])"
proof (intro conjI impI)
  show "msg_id (last (messages (fst (append_request message chatOptions ev st)))) =
        nanoid_at ev (ids st)" if "new_id message = None \<or> new_id message = Some []"
    using that by (auto simp add: append_request_def)
  show "msg_id (last (messages (fst (append_request message chatOptions ev st)))) = i"
    if "new_id message = Some i \<and> i \<noteq> []"
    using that by (simp add: append_request_def)
  show "butlast (messages (fst (append_request message chatOptions ev st))) = data st"
    by (simp add: append_request_def split: option.splits prod.splits)
  show a: "append message chatOptions cfg ev st =
     triggerRequest cfg ev (fst (append_request message chatOptions ev st))
       (snd (append_request message chatOptions ev st))"
    by (simp add: append_def split: prod.splits)
  have c: "controllers (snd (append_request message chatOptions ev st)) = controllers st"
    by (simp add: append_request_def split: option.splits)
  show "take 3 (new_effects (snd (append_request message chatOptions ev st)) st') =
        [LoadingSet True,
         Published Optimistic (messages (fst (append_request message chatOptions ev st))),
         Fetched (fetch_args cfg (fst (append_request message chatOptions ev st))
                   (Some (controllers st)))]"
    if "append message chatOptions cfg ev st = Some (r, st')"
    using triggerRequest_first_effects [OF that [unfolded a]] c by simp
qed

text \<open>
  Claim C9, as stated, fails for the id that is the empty string: \<^verbatim>\<open>!message.id\<close>
  holds for it, and the message is submitted with the id drawn from \<^verbatim>\<open>nanoid\<close>.
\<close>

theorem append_replaces_empty_id_counterexample:
  "msg_id (last (messages (fst (append_request (draft (Some [])) None
      (world (\<lambda>n. streaming [''Hel'', ''lo'']) never) (useChat [hi, reply] Map.empty))))) = ''id''"
  by code_simp

text \<open>
  The witness: a message without an id gets the id \<^verbatim>\<open>id\<close> that \<^verbatim>\<open>nanoid\<close> returns
  next, a message with the id \<^verbatim>\<open>m7\<close> keeps it, and the run of \<^verbatim>\<open>append\<close> with the
  latter publishes and fetches the request that holds it.
\<close>

theorem append_fills_in_missing_id_witness:
  "msg_id (last (messages (fst (append_request (draft None) None
      (world (\<lambda>n. streaming [''Hel'', ''lo'']) never) (useChat [hi, reply] Map.empty))))) = ''id'' \<and>
   msg_id (last (messages (fst (append_request (draft (Some ''m7'')) None
      (world (\<lambda>n. streaming [''Hel'', ''lo'']) never) (useChat [hi, reply] Map.empty))))) = ''m7'' \<and>
   append (draft (Some ''m7'')) None plain_config (world (\<lambda>n. streaming [''Hel'', ''lo'']) never)
      (useChat [hi, reply] Map.empty) \<noteq> None \<and>
   take 3 (new_effects
       (snd (append_request (draft (Some ''m7'')) None
          (world (\<lambda>n. streaming [''Hel'', ''lo'']) never) (useChat [hi, reply] Map.empty)))
       (snd (the (append (draft (Some ''m7'')) None plain_config
          (world (\<lambda>n. streaming [''Hel'', ''lo'']) never) (useChat [hi, reply] Map.empty))))) =
     [LoadingSet True,
      Published Optimistic (messages (fst (append_request (draft (Some ''m7'')) None
          (world (\<lambda>n. streaming [''Hel'', ''lo'']) never) (useChat [hi, reply] Map.empty)))),
      Fetched (fetch_args plain_config (fst (append_request (draft (Some ''m7'')) None
          (world (\<lambda>n. streaming [''Hel'', ''lo'']) never) (useChat [hi, reply] Map.empty)))
        (Some (controllers (useChat [hi, reply] Map.empty))))]"
proof -
  let ?W = "world (\<lambda>n. streaming [''Hel'', ''lo'']) never"
  let ?S = "useChat [hi, reply] Map.empty"
  let ?run = "append (draft (Some ''m7'')) None plain_config ?W ?S"
  have n: "new_id (draft None) = None \<or> new_id (draft None) = Some []"
    by (simp add: draft_def)
  have i: "new_id (draft (Some ''m7'')) = Some ''m7'' \<and> ''m7'' \<noteq> []"
    by (simp add: draft_def)
  have fresh: "nanoid_at ?W (ids ?S) = ''id''"
    by (simp add: world_def useChat_def)
  have ne: "?run \<noteq> None" by code_simp
  then have run: "?run = Some (fst (the ?run), snd (the ?run))" by (rule the_run)
  from append_fills_in_missing_id [of "draft None" None ?W ?S "''m7''" plain_config "fst (the ?run)" "snd (the ?run)"]
    append_fills_in_missing_id [of "draft (Some ''m7'')" None ?W ?S "''m7''" plain_config "fst (the ?run)" "snd (the ?run)"]
    n i fresh ne run
  show ?thesis by metis
qed

text \<open>
  Claim C4. On an empty history \<^verbatim>\<open>reload\<close> changes nothing and resolves to null. On a
  history that ends in a user message it changes nothing, so no request is issued, and
  resolves to \<^verbatim>\<open>undefined\<close>. On a history that ends in an assistant message it is
  \<^verbatim>\<open>triggerRequest\<close> on the history without its last message, and in a run that
  settles this shorter history is published and fetched first.
\<close>

theorem reload_by_last_message:
  "(data st = [] \<longrightarrow> reload opts cfg ev st = Some (Resolved RNull, st)) \<and>
   (data st \<noteq> [] \<and> role (last (data st)) = User \<longrightarrow>
      reload opts cfg ev st = Some (Resolved RUndefined, st)) \<and>
   (data st \<noteq> [] \<and> role (last (data st)) = Assistant \<longrightarrow>
      reload opts cfg ev st =
        triggerRequest cfg ev
          \<lparr>messages = butlast (data st), req_options = cro_options opts,
           req_functions = cro_functions opts, req_function_call = cro_function_call opts\<rparr> st \<and>
      (reload opts cfg ev st = Some (r, st') \<longrightarrow>
         take 3 (new_effects st st') =
           [LoadingSet True, Published Optimistic (butlast (data st)),
            Fetched (fetch_args cfg
              \<lparr>messages = butlast (data st), req_options = cro_options opts,
               req_functions = cro_functions opts, req_function_call = cro_function_call opts\<rparr>
              (Some (controllers st)))]))"
proof (intro conjI impI)
  show "reload opts cfg ev st = Some (Resolved RNull, st)" if "data st = []"
    using that by (simp add: reload_def)
  show "reload opts cfg ev st = Some (Resolved RUndefined, st)"
    if "data st \<noteq> [] \<and> role (last (data st)) = User"
    using that by (simp add: reload_def)
  show a: "reload opts cfg ev st =
        triggerRequest cfg ev
          \<lparr>messages = butlast (data st), req_options = cro_options opts,
           req_functions = cro_functions opts, req_function_call = cro_function_call opts\<rparr> st"
    if "data st \<noteq> [] \<and> role (last (data st)) = Assistant"
    using that by (simp add: reload_def)
  show "take 3 (new_effects st st') =
           [LoadingSet True, Published Optimistic (butlast (data st)),
            Fetched (fetch_args cfg
              \<lparr>messages = butlast (data st), req_options = cro_options opts,
               req_functions = cro_functions opts, req_function_call = cro_function_call opts\<rparr>
              (Some (controllers st)))]"
    if "data st \<noteq> [] \<and> role (last (data st)) = Assistant"
      and "reload opts cfg ev st = Some (r, st')"
    using triggerRequest_first_effects [OF that(2) [unfolded a [OF that(1)]]] by simp
qed

text \<open>
  The witness: an empty history, the history of one user message, and the history of a
  user message and a reply, for which the user message alone is published and fetched.
\<close>

theorem reload_by_last_message_witness:
  "reload no_options plain_config (world (\<lambda>n. streaming [''Hel'', ''lo'']) never)
     (useChat [] Map.empty) = Some (Resolved RNull, useChat [] Map.empty) \<and>
   reload no_options plain_config (world (\<lambda>n. streaming [''Hel'', ''lo'']) never)
     (useChat [hi] Map.empty) = Some (Resolved RUndefined, useChat [hi] Map.empty) \<and>
   reload no_options plain_config (world (\<lambda>n. streaming [''Hel'', ''lo'']) never)
     (useChat [hi, reply] Map.empty) \<noteq> None \<and>
   take 3 (new_effects (useChat [hi, reply] Map.empty)
      (snd (the (reload no_options plain_config (world (\<lambda>n. streaming [''Hel'', ''lo'']) never)
         (useChat [hi, reply] Map.empty))))) =
     [LoadingSet True, Published Optimistic [hi],
      Fetched (fetch_args plain_config ask (Some 0))]"
proof -
  let ?W = "world (\<lambda>n. streaming [''Hel'', ''lo'']) never"
  let ?run = "reload no_options plain_config ?W (useChat [hi, reply] Map.empty)"
  have e: "data (useChat [] Map.empty) = []" by (simp add: useChat_def)
  have u: "data (useChat [hi] Map.empty) \<noteq> [] \<and> role (last (data (useChat [hi] Map.empty))) = User"
    by (simp add: useChat_def hi_def)
  have a: "data (useChat [hi, reply] Map.empty) \<noteq> [] \<and>
      role (last (data (useChat [hi, reply] Map.empty))) = Assistant"
    by (simp add: useChat_def reply_def)
  have ne: "?run \<noteq> None" by code_simp
  then have run: "?run = Some (fst (the ?run), snd (the ?run))" by (rule the_run)
  have req: "\<lparr>messages = butlast (data (useChat [hi, reply] Map.empty)),
      req_options = cro_options no_options, req_functions = cro_functions no_options,
      req_function_call = cro_function_call no_options\<rparr> = ask"
    by (simp add: useChat_def no_options_def ask_def)
  have c: "controllers (useChat [hi, reply] Map.empty) = 0"
    "butlast (data (useChat [hi, reply] Map.empty)) = [hi]"
    by (simp_all add: useChat_def)
  from reload_by_last_message [of "useChat [] Map.empty" no_options plain_config ?W] e
  have 1: "reload no_options plain_config ?W (useChat [] Map.empty) =
      Some (Resolved RNull, useChat [] Map.empty)" by blast
  from reload_by_last_message [of "useChat [hi] Map.empty" no_options plain_config ?W] u
  have 2: "reload no_options plain_config ?W (useChat [hi] Map.empty) =
      Some (Resolved RUndefined, useChat [hi] Map.empty)" by blast
  from reload_by_last_message [of "useChat [hi, reply] Map.empty" no_options plain_config ?W
      "fst (the ?run)" "snd (the ?run)"] a
  have "?run = Some (fst (the ?run), snd (the ?run)) \<longrightarrow>
      take 3 (new_effects (useChat [hi, reply] Map.empty) (snd (the ?run))) =
        [LoadingSet True, Published Optimistic (butlast (data (useChat [hi, reply] Map.empty))),
         Fetched (fetch_args plain_config
           \<lparr>messages = butlast (data (useChat [hi, reply] Map.empty)),
            req_options = cro_options no_options, req_functions = cro_functions no_options,
            req_function_call = cro_function_call no_options\<rparr>
           (Some (controllers (useChat [hi, reply] Map.empty))))]"
    by blast
  with run have "take 3 (new_effects (useChat [hi, reply] Map.empty) (snd (the ?run))) =
        [LoadingSet True, Published Optimistic (butlast (data (useChat [hi, reply] Map.empty))),
         Fetched (fetch_args plain_config
           \<lparr>messages = butlast (data (useChat [hi, reply] Map.empty)),
            req_options = cro_options no_options, req_functions = cro_functions no_options,
            req_function_call = cro_function_call no_options\<rparr>
           (Some (controllers (useChat [hi, reply] Map.empty))))]"
    by (rule mp [rotated])
  then have 3: "take 3 (new_effects (useChat [hi, reply] Map.empty) (snd (the ?run))) =
      [LoadingSet True, Published Optimistic [hi], Fetched (fetch_args plain_config ask (Some 0))]"
    by (simp add: c ask_def no_options_def)
  from 1 2 3 ne show ?thesis by simp
qed

subsection \<open>A response that is not successful\<close>





subsection \<open>Rollback\<close>













subsection \<open>The check after each chunk\<close>




end
